theory Spec2Isabelle
  imports Main "HOL-Library.Word"
begin

section \<open>The E1.33 device manager (tools/e133/DeviceManager.cpp)\<close>

text \<open>
  The device manager keeps one \<open>DeviceState\<close> per IPv4 address in \<open>m_device_map\<close>
  and reacts to the calls of its collaborators: the TCP connector hands over connected
  sockets, the socket reports data and close, the root inflator reports decoded
  transport headers, the RDM inflator reports requests for the root endpoint, and the
  health checked connection reports a missed heartbeat.

  Every member function is a HOL function from the manager's state to the new state.
  What a member function does to its collaborators (log lines, callbacks run, calls to
  the connector, the select server, a message queue or a health checked connection) is
  appended, in program order, to the \<open>effects\<close> field of the state. Dereferencing a
  NULL \<open>auto_ptr\<close> is a result of its own, \<open>Inl NullPointerDereference\<close>.
\<close>

subsection \<open>Data\<close>

text \<open>\<open>IPV4Address::AsInt()\<close>, the key of the device map, is a 32 bit integer.\<close>

type_synonym IPV4Address = "32 word"

text \<open>
  \<open>GenericSocketAddress\<close>: the code only asks whether \<open>Family()\<close> is \<open>AF_INET\<close> and,
  when it is, for \<open>V4Addr()\<close>, a host and a port.
\<close>

datatype GenericSocketAddress =
    IPV4SocketAddress IPV4Address "16 word"
  | OtherFamily

text \<open>A connected socket: the descriptor tells sockets apart, the peer is what \<open>GetPeer()\<close> returns.\<close>

record TCPSocket =
  descriptor :: nat
  GetPeer :: GenericSocketAddress

text \<open>\<open>new MessageQueue(device_state->socket.get(), m_ss, pool)\<close>: the socket pointer may be NULL.\<close>

record MessageQueue =
  mq_socket :: "TCPSocket option"

text \<open>
  \<open>new E133HealthCheckedConnection(m_message_builder, message_queue, callback, m_ss)\<close>
  with the callback \<open>SocketUnhealthy(src_ip)\<close>.
\<close>

record E133HealthCheckedConnection =
  hc_message_queue :: MessageQueue
  hc_on_unhealthy :: IPV4Address

text \<open>\<open>new IncomingTCPTransport(&m_root_inflator, socket_ptr)\<close>.\<close>

record IncomingTCPTransport =
  it_socket :: TCPSocket

text \<open>The class \<open>DeviceState\<close>; an \<open>auto_ptr\<close> that is NULL is \<open>None\<close>.\<close>

record DeviceState =
  socket :: "TCPSocket option"
  message_queue :: "MessageQueue option"
  health_checked_connection :: "E133HealthCheckedConnection option"
  in_transport :: "IncomingTCPTransport option"
  am_designated_controller :: bool

text \<open>The constructor \<open>DeviceState()\<close>.\<close>

definition new_DeviceState :: DeviceState where
  "new_DeviceState =
     \<lparr>socket = None, message_queue = None, health_checked_connection = None,
      in_transport = None, am_designated_controller = False\<rparr>"

datatype transport_type = TCP | UDP | UNDEFINED

record TransportHeader =
  SourceIP :: IPV4Address
  Transport :: transport_type

record E133Header =
  Sequence :: "32 word"
  Endpoint :: "16 word"

text \<open>
  The packet built in \<open>EndpointRequest\<close>: a status PDU (\<open>SC_E133_ACK\<close>, "OK") wrapped by
  \<open>BuildTCPRootE133\<close> with the vector \<open>VECTOR_FRAMING_STATUS\<close>, a sequence number and an
  endpoint. The byte layout is the message builder's business.
\<close>

datatype e133_status_code = SC_E133_ACK

datatype framing_vector = VECTOR_FRAMING_STATUS

record IOStack =
  status_code :: e133_status_code
  status_message :: string
  vector :: framing_vector
  pdu_sequence :: "32 word"
  pdu_endpoint :: "16 word"

text \<open>The logging macros used in the file, most severe first.\<close>

datatype log_level = OLA_FATAL | OLA_WARN | OLA_INFO

text \<open>
  The calls the manager makes on its collaborators. The connector is always called with
  the port \<open>E133_PORT\<close> and, in \<open>AddEndpoint\<close>, with \<open>m_backoff_policy\<close>.
  \<open>m_connector.Disconnect\<close> is called in two forms: with the address alone
  (\<open>ConnectorDisconnect ip None\<close>) and with a second argument
  (\<open>ConnectorDisconnect ip (Some True)\<close>).
\<close>

datatype effect =
    Log log_level
  | AcquireDeviceRun IPV4Address
  | ReleaseDeviceRun IPV4Address
  | RDMMessageRun TransportHeader E133Header string
  | ConnectorAddEndpoint IPV4Address
  | ConnectorDisconnect IPV4Address "bool option"
  | SetOnData TCPSocket IPV4Address
  | SetOnClose TCPSocket IPV4Address
  | AddReadDescriptor TCPSocket
  | RemoveReadDescriptor "TCPSocket option"
  | HeartbeatReceived E133HealthCheckedConnection
  | SendMessage MessageQueue IOStack

datatype error = NullPointerDereference

text \<open>
  The members of \<open>DeviceManager\<close> that the functions below read or write. The acquire
  and release callbacks are opaque: the state only records whether one is set, and a run
  of it is an effect. The RDM message callback returns the bool that decides on the
  acknowledgement, so it is kept as a function. No callback calls back into the manager
  while it runs.
\<close>

record DeviceManager =
  m_device_map :: "IPV4Address \<rightharpoonup> DeviceState"
  m_rdm_callback :: "(TransportHeader \<Rightarrow> E133Header \<Rightarrow> string \<Rightarrow> bool) option"
  m_acquire_device_cb :: bool
  m_release_device_cb :: bool
  effects :: "effect list"

text \<open>The state after the constructor: no device, no callback, nothing done yet.\<close>

definition DeviceManager_new :: DeviceManager where
  "DeviceManager_new =
     \<lparr>m_device_map = Map.empty, m_rdm_callback = None, m_acquire_device_cb = False,
      m_release_device_cb = False, effects = []\<rparr>"

definition emit :: "effect \<Rightarrow> DeviceManager \<Rightarrow> DeviceManager" where
  "emit e st = st\<lparr>effects := effects st @ [e]\<rparr>"

text \<open>Writing through the \<open>DeviceState *\<close> found in the map.\<close>

definition store_device :: "IPV4Address \<Rightarrow> DeviceState \<Rightarrow> DeviceManager \<Rightarrow> DeviceManager" where
  "store_device ip d st = st\<lparr>m_device_map := (m_device_map st)(ip \<mapsto> d)\<rparr>"

subsection \<open>Member functions\<close>

definition SetRDMMessageCallback ::
  "DeviceManager \<Rightarrow> (TransportHeader \<Rightarrow> E133Header \<Rightarrow> string \<Rightarrow> bool) option \<Rightarrow> DeviceManager" where
  "SetRDMMessageCallback st callback = st\<lparr>m_rdm_callback := callback\<rparr>"

definition SetAcquireDeviceCallback :: "DeviceManager \<Rightarrow> bool \<Rightarrow> DeviceManager" where
  "SetAcquireDeviceCallback st callback = st\<lparr>m_acquire_device_cb := callback\<rparr>"

definition SetReleaseDeviceCallback :: "DeviceManager \<Rightarrow> bool \<Rightarrow> DeviceManager" where
  "SetReleaseDeviceCallback st callback = st\<lparr>m_release_device_cb := callback\<rparr>"

definition AddDevice :: "DeviceManager \<Rightarrow> IPV4Address \<Rightarrow> DeviceManager" where
  "AddDevice st ip_address =
     (case m_device_map st ip_address of
        Some d \<Rightarrow> st
      | None \<Rightarrow>
          emit (ConnectorAddEndpoint ip_address)
            (emit (Log OLA_INFO) (store_device ip_address new_DeviceState st)))"

text \<open>Both removals stop at a TODO: they warn when the device is known and change nothing.\<close>

definition RemoveDevice :: "DeviceManager \<Rightarrow> IPV4Address \<Rightarrow> DeviceManager" where
  "RemoveDevice st ip_address =
     (case m_device_map st ip_address of
        None \<Rightarrow> st
      | Some d \<Rightarrow> emit (Log OLA_WARN) st)"

definition RemoveDeviceIfNotConnected :: "DeviceManager \<Rightarrow> IPV4Address \<Rightarrow> DeviceManager" where
  "RemoveDeviceIfNotConnected st ip_address =
     (case m_device_map st ip_address of
        None \<Rightarrow> st
      | Some d \<Rightarrow> emit (Log OLA_WARN) st)"

text \<open>
  \<open>OnTCPConnect\<close> owns the socket it is given: on the two early returns the local
  \<open>auto_ptr\<close> deletes it and the state keeps no trace of it; otherwise the record takes it
  over (\<open>reset\<close> deletes what the record held before).
\<close>

definition OnTCPConnect :: "DeviceManager \<Rightarrow> TCPSocket \<Rightarrow> DeviceManager" where
  "OnTCPConnect st socket_ptr =
     (case GetPeer socket_ptr of
        OtherFamily \<Rightarrow> emit (Log OLA_WARN) st
      | IPV4SocketAddress host port \<Rightarrow>
          (case m_device_map st host of
             None \<Rightarrow> emit (Log OLA_FATAL) st
           | Some device_state \<Rightarrow>
               emit (AddReadDescriptor socket_ptr)
                 (emit (SetOnClose socket_ptr host)
                   (emit (SetOnData socket_ptr host)
                     (store_device host
                        (device_state\<lparr>socket := Some socket_ptr,
                                       in_transport := Some \<lparr>it_socket = socket_ptr\<rparr>\<rparr>)
                        st)))))"

definition SocketClosed :: "DeviceManager \<Rightarrow> IPV4Address \<Rightarrow> DeviceManager" where
  "SocketClosed st0 ip_address =
     (let st = emit (Log OLA_INFO) st0 in
      case m_device_map st ip_address of
        None \<Rightarrow> emit (Log OLA_FATAL) st
      | Some device_state \<Rightarrow>
          (let st1 =
                 (if am_designated_controller device_state
                  then emit (ConnectorDisconnect ip_address None)
                         (if m_release_device_cb st
                          then emit (ReleaseDeviceRun ip_address) st else st)
                  else emit (ConnectorDisconnect ip_address (Some True)) st)
           in store_device ip_address
                (device_state\<lparr>am_designated_controller := False,
                               health_checked_connection := None,
                               message_queue := None,
                               in_transport := None,
                               socket := None\<rparr>)
                (emit (RemoveReadDescriptor (socket device_state)) st1)))"

text \<open>\<open>transport->Receive()\<close> belongs to the transport: its result is an argument.\<close>

definition ReceiveTCPData :: "DeviceManager \<Rightarrow> IPV4Address \<Rightarrow> bool \<Rightarrow> DeviceManager" where
  "ReceiveTCPData st ip_address receive_ok =
     (if \<not> receive_ok then SocketClosed (emit (Log OLA_WARN) st) ip_address else st)"

definition SocketUnhealthy :: "DeviceManager \<Rightarrow> IPV4Address \<Rightarrow> DeviceManager" where
  "SocketUnhealthy st ip_address = SocketClosed (emit (Log OLA_INFO) st) ip_address"

text \<open>
  \<open>health_checked_connection->Setup()\<close> belongs to the health checked connection: its
  result is the argument \<open>setup_ok\<close>. The flag is set, the callback run and the message
  queue stored before \<open>Setup\<close> is called, so \<open>SocketClosed\<close> after a failed \<open>Setup\<close> sees a
  designated record.
\<close>

definition RLPDataReceived ::
  "DeviceManager \<Rightarrow> TransportHeader \<Rightarrow> bool \<Rightarrow> error + DeviceManager" where
  "RLPDataReceived st header setup_ok =
     (if Transport header \<noteq> TCP then Inr st
      else
        let src_ip = SourceIP header in
        case m_device_map st src_ip of
          None \<Rightarrow> Inr (emit (Log OLA_FATAL) st)
        | Some device_state \<Rightarrow>
            if am_designated_controller device_state then
              (case health_checked_connection device_state of
                 None \<Rightarrow> Inl NullPointerDereference
               | Some h \<Rightarrow> Inr (emit (HeartbeatReceived h) st))
            else
              let st1 = emit (Log OLA_INFO) st;
                  st2 = (if m_acquire_device_cb st1
                         then emit (AcquireDeviceRun src_ip) st1 else st1);
                  queue = \<lparr>mq_socket = socket device_state\<rparr>;
                  promoted = device_state\<lparr>am_designated_controller := True,
                                           message_queue := Some queue\<rparr>;
                  st3 = store_device src_ip promoted st2;
                  hcc = \<lparr>hc_message_queue = queue, hc_on_unhealthy = src_ip\<rparr>
              in if \<not> setup_ok
                 then Inr (SocketClosed (emit (Log OLA_WARN) st3) src_ip)
                 else
                   Inr (store_device src_ip
                          (promoted\<lparr>health_checked_connection := Some hcc\<rparr>)
                          (if health_checked_connection promoted \<noteq> None
                           then emit (Log OLA_WARN) st3 else st3)))"

definition EndpointRequest ::
  "DeviceManager \<Rightarrow> TransportHeader \<Rightarrow> E133Header \<Rightarrow> string \<Rightarrow> error + DeviceManager" where
  "EndpointRequest st transport_header e133_header raw_request =
     (case m_rdm_callback st of
        None \<Rightarrow> Inr st
      | Some callback \<Rightarrow>
          (let st1 = emit (RDMMessageRun transport_header e133_header raw_request) st in
           if \<not> callback transport_header e133_header raw_request then Inr st1
           else
             (case m_device_map st1 (SourceIP transport_header) of
                None \<Rightarrow> Inr (emit (Log OLA_WARN) st1)
              | Some device_state \<Rightarrow>
                  (let packet = \<lparr>status_code = SC_E133_ACK, status_message = ''OK'',
                                 vector = VECTOR_FRAMING_STATUS,
                                 pdu_sequence = Sequence e133_header,
                                 pdu_endpoint = Endpoint e133_header\<rparr>
                   in (case message_queue device_state of
                         None \<Rightarrow> Inl NullPointerDereference
                       | Some queue \<Rightarrow> Inr (emit (SendMessage queue packet) st1))))))"

subsection \<open>Sequences of calls\<close>

text \<open>
  The manager runs on one thread: between two calls of its member functions it is at
  rest. A history of the manager is a list of such calls, run from left to right; a NULL
  dereference ends it.
\<close>

datatype call =
    CallSetRDMMessageCallback "(TransportHeader \<Rightarrow> E133Header \<Rightarrow> string \<Rightarrow> bool) option"
  | CallSetAcquireDeviceCallback bool
  | CallSetReleaseDeviceCallback bool
  | CallAddDevice IPV4Address
  | CallRemoveDevice IPV4Address
  | CallRemoveDeviceIfNotConnected IPV4Address
  | CallOnTCPConnect TCPSocket
  | CallReceiveTCPData IPV4Address bool
  | CallSocketUnhealthy IPV4Address
  | CallSocketClosed IPV4Address
  | CallRLPDataReceived TransportHeader bool
  | CallEndpointRequest TransportHeader E133Header string

fun step :: "DeviceManager \<Rightarrow> call \<Rightarrow> error + DeviceManager" where
  "step st (CallSetRDMMessageCallback cb) = Inr (SetRDMMessageCallback st cb)"
| "step st (CallSetAcquireDeviceCallback cb) = Inr (SetAcquireDeviceCallback st cb)"
| "step st (CallSetReleaseDeviceCallback cb) = Inr (SetReleaseDeviceCallback st cb)"
| "step st (CallAddDevice ip) = Inr (AddDevice st ip)"
| "step st (CallRemoveDevice ip) = Inr (RemoveDevice st ip)"
| "step st (CallRemoveDeviceIfNotConnected ip) = Inr (RemoveDeviceIfNotConnected st ip)"
| "step st (CallOnTCPConnect s) = Inr (OnTCPConnect st s)"
| "step st (CallReceiveTCPData ip receive_ok) = Inr (ReceiveTCPData st ip receive_ok)"
| "step st (CallSocketUnhealthy ip) = Inr (SocketUnhealthy st ip)"
| "step st (CallSocketClosed ip) = Inr (SocketClosed st ip)"
| "step st (CallRLPDataReceived header setup_ok) = RLPDataReceived st header setup_ok"
| "step st (CallEndpointRequest th eh raw) = EndpointRequest st th eh raw"

fun run :: "DeviceManager \<Rightarrow> call list \<Rightarrow> error + DeviceManager" where
  "run st [] = Inr st"
| "run st (c # cs) = (case step st c of Inl e \<Rightarrow> Inl e | Inr st' \<Rightarrow> run st' cs)"

text \<open>
  \<open>RLPDataReceived\<close> is the callback of \<open>m_root_inflator\<close>, and the only thing that
  feeds that inflator is the \<open>IncomingTCPTransport\<close> which \<open>OnTCPConnect\<close> creates
  together with the record's socket. A TCP transport header for a known device therefore
  arrives while the record of its source address holds a socket. \<open>from_session\<close> says
  so for one call, \<open>well_sequenced\<close> for every call of a history at the moment it is
  made.
\<close>

definition from_session :: "DeviceManager \<Rightarrow> call \<Rightarrow> bool" where
  "from_session st c =
     (case c of
        CallRLPDataReceived header setup_ok \<Rightarrow>
          (if Transport header = TCP
           then (case m_device_map st (SourceIP header) of
                   None \<Rightarrow> True
                 | Some d \<Rightarrow> socket d \<noteq> None)
           else True)
      | _ \<Rightarrow> True)"

fun well_sequenced :: "DeviceManager \<Rightarrow> call list \<Rightarrow> bool" where
  "well_sequenced st [] = True"
| "well_sequenced st (c # cs) =
     (from_session st c \<and>
      (case step st c of Inl e \<Rightarrow> True | Inr st' \<Rightarrow> well_sequenced st' cs))"

text \<open>
  What the class comment of \<open>DeviceState\<close> leaves implicit, for the record stored
  under the address \<open>ip\<close>: queue, health checked connection and transport only next to a
  socket, the flag only next to a socket, the transport reading from the very socket the
  record holds, and that socket connected to \<open>ip\<close>.
\<close>

definition session_bound :: "IPV4Address \<Rightarrow> DeviceState \<Rightarrow> bool" where
  "session_bound ip d =
     ((message_queue d = None \<or> socket d \<noteq> None) \<and>
      (health_checked_connection d = None \<or> socket d \<noteq> None) \<and>
      (in_transport d = None \<or> socket d \<noteq> None) \<and>
      (\<not> am_designated_controller d \<or> socket d \<noteq> None) \<and>
      (case in_transport d of None \<Rightarrow> True | Some t \<Rightarrow> socket d = Some (it_socket t)) \<and>
      (case socket d of
         None \<Rightarrow> True
       | Some s \<Rightarrow>
           (case GetPeer s of
              IPV4SocketAddress host port \<Rightarrow> host = ip
            | OtherFamily \<Rightarrow> False)))"

text \<open>The flag, the queue and the health checked connection come and go together.\<close>

definition designation_complete :: "DeviceState \<Rightarrow> bool" where
  "designation_complete d =
     ((am_designated_controller d \<longleftrightarrow> message_queue d \<noteq> None) \<and>
      (am_designated_controller d \<longleftrightarrow> health_checked_connection d \<noteq> None))"

text \<open>The record \<open>SocketClosed\<close> leaves behind.\<close>

definition torn_down :: "DeviceState \<Rightarrow> DeviceState" where
  "torn_down d =
     d\<lparr>am_designated_controller := False, health_checked_connection := None,
       message_queue := None, in_transport := None, socket := None\<rparr>"

subsection \<open>The connector, as far as the manager relies on it\<close>

text \<open>
  Modelled from the spec: the TCP connector (\<open>ola/network/AdvancedTCPConnector\<close>) is a
  class of its own, and the manager's source shows only the calls to it. The specification
  describes it as \<open>Disconnect(address, abandonFutureRetries: bool)\<close> next to a connect
  operation "driven by the Reconnect Policy for retry scheduling", \<open>AddDevice\<close> as
  asking it "to begin non-blocking connection attempts", and the close of a designated
  endpoint (the call without the second argument) as one after which the endpoint
  "re-enters the reconnect cycle normally". So an endpoint known to the connector is
  either still on the retry schedule or has had its future retries abandoned;
  \<open>connector_after\<close> replays the manager's calls on that state.
\<close>

datatype retry_state = OnRetrySchedule | RetriesAbandoned

text \<open>Modelled from the spec: one call of the manager, as the connector sees it.\<close>

fun connector_call :: "(IPV4Address \<rightharpoonup> retry_state) \<Rightarrow> effect \<Rightarrow> (IPV4Address \<rightharpoonup> retry_state)" where
  "connector_call c (ConnectorAddEndpoint ip) =
     (case c ip of None \<Rightarrow> c(ip \<mapsto> OnRetrySchedule) | Some r \<Rightarrow> c)"
| "connector_call c (ConnectorDisconnect ip abandonFutureRetries) =
     (case c ip of
        None \<Rightarrow> c
      | Some r \<Rightarrow>
          c(ip \<mapsto> (if abandonFutureRetries = Some True then RetriesAbandoned
                     else OnRetrySchedule)))"
| "connector_call c e = c"

text \<open>Modelled from the spec: the connector after all the calls made so far.\<close>

definition connector_after :: "effect list \<Rightarrow> (IPV4Address \<rightharpoonup> retry_state)" where
  "connector_after es = foldl connector_call Map.empty es"

subsection \<open>Fixtures for concrete runs\<close>

text \<open>The device 10.0.0.5 of the specification's scenario, a socket connected to it, and a frame from it.\<close>

definition device_ip :: IPV4Address where
  "device_ip = 0x0A000005"

definition device_socket :: TCPSocket where
  "device_socket = \<lparr>descriptor = 7, GetPeer = IPV4SocketAddress device_ip 5569\<rparr>"

definition device_frame :: TransportHeader where
  "device_frame = \<lparr>SourceIP = device_ip, Transport = TCP\<rparr>"

definition request_header :: E133Header where
  "request_header = \<lparr>Sequence = 42, Endpoint = 0\<rparr>"

text \<open>An RDM message callback that asks for an acknowledgement of every request.\<close>

definition acknowledge_all :: "TransportHeader \<Rightarrow> E133Header \<Rightarrow> string \<Rightarrow> bool" where
  "acknowledge_all th eh raw = True"

text \<open>An RDM message callback that never asks for one.\<close>

definition acknowledge_none :: "TransportHeader \<Rightarrow> E133Header \<Rightarrow> string \<Rightarrow> bool" where
  "acknowledge_none th eh raw = False"

text \<open>An address that was never added, 10.0.0.9, with a socket and a frame of its own.\<close>

definition stranger_ip :: IPV4Address where
  "stranger_ip = 0x0A000009"

definition stranger_socket :: TCPSocket where
  "stranger_socket = \<lparr>descriptor = 8, GetPeer = IPV4SocketAddress stranger_ip 5569\<rparr>"

definition stranger_frame :: TransportHeader where
  "stranger_frame = \<lparr>SourceIP = stranger_ip, Transport = TCP\<rparr>"

text \<open>The state a history leads to from a freshly constructed manager.\<close>

definition state_after :: "call list \<Rightarrow> DeviceManager" where
  "state_after cs = (case run DeviceManager_new cs of Inr st \<Rightarrow> st | Inl e \<Rightarrow> DeviceManager_new)"

text \<open>
  The scenario of the specification: both callbacks registered, the device added, its
  connection established; then the first frame arrives.
\<close>

definition connect_calls :: "call list" where
  "connect_calls =
     [CallSetRDMMessageCallback (Some acknowledge_all),
      CallSetAcquireDeviceCallback True,
      CallSetReleaseDeviceCallback True,
      CallAddDevice device_ip,
      CallOnTCPConnect device_socket]"

definition connected_device :: DeviceState where
  "connected_device =
     \<lparr>socket = Some device_socket, message_queue = None, health_checked_connection = None,
      in_transport = Some \<lparr>it_socket = device_socket\<rparr>, am_designated_controller = False\<rparr>"

definition device_health_check :: E133HealthCheckedConnection where
  "device_health_check =
     \<lparr>hc_message_queue = \<lparr>mq_socket = Some device_socket\<rparr>, hc_on_unhealthy = device_ip\<rparr>"

definition designated_device :: DeviceState where
  "designated_device =
     \<lparr>socket = Some device_socket,
      message_queue = Some \<lparr>mq_socket = Some device_socket\<rparr>,
      health_checked_connection = Some device_health_check,
      in_transport = Some \<lparr>it_socket = device_socket\<rparr>,
      am_designated_controller = True\<rparr>"


section \<open>Properties\<close>

subsection \<open>What each member function does to the state\<close>

lemma emit_simps [simp]:
  "m_device_map (emit e st) = m_device_map st"
  "m_rdm_callback (emit e st) = m_rdm_callback st"
  "m_acquire_device_cb (emit e st) = m_acquire_device_cb st"
  "m_release_device_cb (emit e st) = m_release_device_cb st"
  "effects (emit e st) = effects st @ [e]"
  by (simp_all add: emit_def)

lemma store_device_simps [simp]:
  "m_device_map (store_device ip d st) = (m_device_map st)(ip \<mapsto> d)"
  "m_rdm_callback (store_device ip d st) = m_rdm_callback st"
  "m_acquire_device_cb (store_device ip d st) = m_acquire_device_cb st"
  "m_release_device_cb (store_device ip d st) = m_release_device_cb st"
  "effects (store_device ip d st) = effects st"
  by (simp_all add: store_device_def)

lemma AddDevice_map:
  "m_device_map (AddDevice st ip) =
     (case m_device_map st ip of
        Some d \<Rightarrow> m_device_map st
      | None \<Rightarrow> (m_device_map st)(ip \<mapsto> new_DeviceState))"
  by (simp add: AddDevice_def split: option.splits)

lemma RemoveDevice_map:
  "m_device_map (RemoveDevice st ip) = m_device_map st"
  "m_device_map (RemoveDeviceIfNotConnected st ip) = m_device_map st"
  by (simp_all add: RemoveDevice_def RemoveDeviceIfNotConnected_def split: option.splits)

lemma OnTCPConnect_map:
  "m_device_map (OnTCPConnect st s) =
     (case GetPeer s of
        OtherFamily \<Rightarrow> m_device_map st
      | IPV4SocketAddress host port \<Rightarrow>
          (case m_device_map st host of
             None \<Rightarrow> m_device_map st
           | Some d \<Rightarrow> (m_device_map st)(host \<mapsto>
               d\<lparr>socket := Some s, in_transport := Some \<lparr>it_socket = s\<rparr>\<rparr>)))"
  by (simp add: OnTCPConnect_def split: option.splits GenericSocketAddress.splits)

lemma SocketClosed_map:
  "m_device_map (SocketClosed st ip) =
     (case m_device_map st ip of
        None \<Rightarrow> m_device_map st
      | Some d \<Rightarrow> (m_device_map st)(ip \<mapsto> torn_down d))"
  by (simp add: SocketClosed_def torn_down_def Let_def split: option.splits)

lemma RLPDataReceived_map:
  assumes "RLPDataReceived st h ok = Inr st'"
  shows "m_device_map st' =
     (if Transport h \<noteq> TCP then m_device_map st
      else case m_device_map st (SourceIP h) of
        None \<Rightarrow> m_device_map st
      | Some d \<Rightarrow>
          if am_designated_controller d then m_device_map st
          else (m_device_map st)(SourceIP h \<mapsto>
                 (if ok
                  then d\<lparr>am_designated_controller := True,
                         message_queue := Some \<lparr>mq_socket = socket d\<rparr>,
                         health_checked_connection :=
                           Some \<lparr>hc_message_queue = \<lparr>mq_socket = socket d\<rparr>,
                                 hc_on_unhealthy = SourceIP h\<rparr>\<rparr>
                  else torn_down d)))"
  using assms
  by (auto simp: RLPDataReceived_def SocketClosed_map torn_down_def Let_def
           split: option.splits if_splits)

lemma EndpointRequest_map:
  assumes "EndpointRequest st th eh raw = Inr st'"
  shows "m_device_map st' = m_device_map st"
  using assms
  by (auto simp: EndpointRequest_def Let_def split: option.splits if_splits)

text \<open>
  The first frame on a record that is not designated, for each result of \<open>Setup\<close>, and
  any number of frames on a record that is.
\<close>

lemma first_frame_Setup_failed:
  assumes "m_device_map st ip = Some d" and "\<not> am_designated_controller d"
    and "Transport h = TCP" and "SourceIP h = ip"
  shows "RLPDataReceived st h False =
           Inr (st\<lparr>m_device_map := (m_device_map st)(ip \<mapsto> torn_down d),
                   effects := effects st @ [Log OLA_INFO] @
                     (if m_acquire_device_cb st then [AcquireDeviceRun ip] else []) @
                     [Log OLA_WARN, Log OLA_INFO] @
                     (if m_release_device_cb st then [ReleaseDeviceRun ip] else []) @
                     [ConnectorDisconnect ip None, RemoveReadDescriptor (socket d)]\<rparr>)"
  using assms
  by (auto simp: RLPDataReceived_def SocketClosed_def emit_def store_device_def torn_down_def Let_def)

lemma first_frame_Setup_ok:
  assumes "m_device_map st ip = Some d" and "\<not> am_designated_controller d"
    and "health_checked_connection d = None"
    and "Transport h = TCP" and "SourceIP h = ip"
  shows "RLPDataReceived st h True =
           Inr (st\<lparr>m_device_map := (m_device_map st)(ip \<mapsto>
                      d\<lparr>am_designated_controller := True,
                        message_queue := Some \<lparr>mq_socket = socket d\<rparr>,
                        health_checked_connection :=
                          Some \<lparr>hc_message_queue = \<lparr>mq_socket = socket d\<rparr>,
                                hc_on_unhealthy = ip\<rparr>\<rparr>),
                   effects := effects st @ [Log OLA_INFO] @
                     (if m_acquire_device_cb st then [AcquireDeviceRun ip] else [])\<rparr>)"
  using assms by (simp add: RLPDataReceived_def emit_def store_device_def Let_def)

lemma heartbeats_only:
  assumes "m_device_map st (SourceIP h) = Some d" and "am_designated_controller d"
    and "health_checked_connection d = Some hc" and "Transport h = TCP"
  shows "run st (map (CallRLPDataReceived h) oks) =
           Inr (st\<lparr>effects := effects st @ replicate (length oks) (HeartbeatReceived hc)\<rparr>)"
  using assms
proof (induction oks arbitrary: st)
  case Nil
  then show ?case by simp
next
  case (Cons ok oks)
  let ?st' = "emit (HeartbeatReceived hc) st"
  have one: "RLPDataReceived st h ok = Inr ?st'"
    using Cons.prems by (simp add: RLPDataReceived_def)
  have "run ?st' (map (CallRLPDataReceived h) oks) =
          Inr (?st'\<lparr>effects := effects ?st' @ replicate (length oks) (HeartbeatReceived hc)\<rparr>)"
    using Cons.prems by (intro Cons.IH) simp_all
  then show ?case
    using one by (simp add: emit_def replicate_append_same)
qed

subsection \<open>Invariants of a history\<close>

lemma session_bound_new: "session_bound ip new_DeviceState"
  by (simp add: session_bound_def new_DeviceState_def)

lemma session_bound_torn_down: "session_bound ip (torn_down d)"
  by (simp add: session_bound_def torn_down_def)

lemma session_bound_connect:
  assumes "GetPeer s = IPV4SocketAddress host port"
  shows "session_bound host (d\<lparr>socket := Some s, in_transport := Some \<lparr>it_socket = s\<rparr>\<rparr>)"
  using assms by (simp add: session_bound_def)

lemma session_bound_promote:
  assumes "session_bound ip d" and "socket d \<noteq> None"
  shows "session_bound ip (d\<lparr>am_designated_controller := True,
                            message_queue := Some q,
                            health_checked_connection := Some hc\<rparr>)"
  using assms by (simp add: session_bound_def split: option.splits)

lemma step_session_bound:
  assumes inv: "\<forall>ip d. m_device_map st ip = Some d \<longrightarrow> session_bound ip d"
    and wired: "from_session st c"
    and steps: "step st c = Inr st'"
  shows "\<forall>ip d. m_device_map st' ip = Some d \<longrightarrow> session_bound ip d"
proof (cases c)
  case (CallAddDevice a)
  then show ?thesis
    using inv steps
    by (auto simp: AddDevice_map session_bound_new split: option.splits if_splits)
next
  case (CallOnTCPConnect s)
  then show ?thesis
    using inv steps
    by (auto simp: OnTCPConnect_map session_bound_connect
             split: option.splits if_splits GenericSocketAddress.splits)
next
  case (CallReceiveTCPData a ok)
  then show ?thesis
    using inv steps
    by (auto simp: ReceiveTCPData_def SocketClosed_map session_bound_torn_down
             split: option.splits if_splits)
next
  case (CallSocketUnhealthy a)
  then show ?thesis
    using inv steps
    by (auto simp: SocketUnhealthy_def SocketClosed_map session_bound_torn_down
             split: option.splits if_splits)
next
  case (CallSocketClosed a)
  then show ?thesis
    using inv steps
    by (auto simp: SocketClosed_map session_bound_torn_down split: option.splits if_splits)
next
  case (CallRLPDataReceived h ok)
  with steps have r: "RLPDataReceived st h ok = Inr st'" by simp
  show ?thesis
    using inv wired CallRLPDataReceived
    by (auto simp: RLPDataReceived_map [OF r] from_session_def session_bound_torn_down
             intro: session_bound_promote split: option.splits if_splits)
next
  case (CallEndpointRequest th eh raw)
  with steps have r: "EndpointRequest st th eh raw = Inr st'" by simp
  show ?thesis
    using inv by (simp add: EndpointRequest_map [OF r])
qed (use inv steps in \<open>auto simp: RemoveDevice_map SetRDMMessageCallback_def
       SetAcquireDeviceCallback_def SetReleaseDeviceCallback_def\<close>)

lemma run_session_bound:
  assumes "\<forall>ip d. m_device_map st ip = Some d \<longrightarrow> session_bound ip d"
    and "well_sequenced st cs" and "run st cs = Inr st'"
  shows "\<forall>ip d. m_device_map st' ip = Some d \<longrightarrow> session_bound ip d"
  using assms
proof (induction cs arbitrary: st)
  case Nil
  then show ?case by simp
next
  case (Cons c cs)
  from Cons.prems(3) obtain mid where mid: "step st c = Inr mid" and rest: "run mid cs = Inr st'"
    by (auto split: sum.splits)
  have wired: "from_session st c" and ws: "well_sequenced mid cs"
    using Cons.prems(2) mid by simp_all
  have "\<forall>ip d. m_device_map mid ip = Some d \<longrightarrow> session_bound ip d"
    using step_session_bound [OF Cons.prems(1) wired mid] .
  from Cons.IH [OF this ws rest] show ?case .
qed

lemma designation_complete_promote:
  "designation_complete (d\<lparr>am_designated_controller := True,
                            message_queue := Some q,
                            health_checked_connection := Some hc\<rparr>)"
  by (simp add: designation_complete_def)

lemma designation_complete_connect:
  "designation_complete d \<Longrightarrow>
   designation_complete (d\<lparr>socket := Some s, in_transport := Some t\<rparr>)"
  by (auto simp: designation_complete_def)

lemma designation_complete_torn_down: "designation_complete (torn_down d)"
  by (simp add: designation_complete_def torn_down_def)

lemma designation_complete_new: "designation_complete new_DeviceState"
  by (simp add: designation_complete_def new_DeviceState_def)

lemma step_designation_complete:
  assumes inv: "\<forall>ip d. m_device_map st ip = Some d \<longrightarrow> designation_complete d"
    and steps: "step st c = Inr st'"
  shows "\<forall>ip d. m_device_map st' ip = Some d \<longrightarrow> designation_complete d"
proof (cases c)
  case (CallAddDevice a)
  then show ?thesis
    using inv steps
    by (auto simp: AddDevice_map designation_complete_new split: option.splits if_splits)
next
  case (CallOnTCPConnect s)
  then show ?thesis
    using inv steps
    by (auto simp: OnTCPConnect_map designation_complete_connect
             split: option.splits if_splits GenericSocketAddress.splits)
next
  case (CallReceiveTCPData a ok)
  then show ?thesis
    using inv steps
    by (auto simp: ReceiveTCPData_def SocketClosed_map designation_complete_torn_down
             split: option.splits if_splits)
next
  case (CallSocketUnhealthy a)
  then show ?thesis
    using inv steps
    by (auto simp: SocketUnhealthy_def SocketClosed_map designation_complete_torn_down
             split: option.splits if_splits)
next
  case (CallSocketClosed a)
  then show ?thesis
    using inv steps
    by (auto simp: SocketClosed_map designation_complete_torn_down
             split: option.splits if_splits)
next
  case (CallRLPDataReceived h ok)
  with steps have r: "RLPDataReceived st h ok = Inr st'" by simp
  show ?thesis
    using inv
    by (auto simp: RLPDataReceived_map [OF r] designation_complete_torn_down
                   designation_complete_promote
             split: option.splits if_splits)
next
  case (CallEndpointRequest th eh raw)
  with steps have r: "EndpointRequest st th eh raw = Inr st'" by simp
  show ?thesis
    using inv by (simp add: EndpointRequest_map [OF r])
qed (use inv steps in \<open>auto simp: RemoveDevice_map SetRDMMessageCallback_def
       SetAcquireDeviceCallback_def SetReleaseDeviceCallback_def\<close>)

lemma run_designation_complete:
  assumes "\<forall>ip d. m_device_map st ip = Some d \<longrightarrow> designation_complete d"
    and "run st cs = Inr st'"
  shows "\<forall>ip d. m_device_map st' ip = Some d \<longrightarrow> designation_complete d"
  using assms
proof (induction cs arbitrary: st)
  case Nil
  then show ?case by simp
next
  case (Cons c cs)
  from Cons.prems(2) obtain mid where mid: "step st c = Inr mid" and rest: "run mid cs = Inr st'"
    by (auto split: sum.splits)
  have "\<forall>ip d. m_device_map mid ip = Some d \<longrightarrow> designation_complete d"
    using step_designation_complete [OF Cons.prems(1) mid] .
  from Cons.IH [OF this rest] show ?case .
qed

subsection \<open>The scenario, evaluated\<close>

lemma connected_state:
  "run DeviceManager_new connect_calls = Inr (state_after connect_calls)"
  "m_device_map (state_after connect_calls) = [device_ip \<mapsto> connected_device]"
  "m_rdm_callback (state_after connect_calls) = Some acknowledge_all"
  "m_acquire_device_cb (state_after connect_calls)"
  "m_release_device_cb (state_after connect_calls)"
  "effects (state_after connect_calls) =
     [Log OLA_INFO, ConnectorAddEndpoint device_ip, SetOnData device_socket device_ip,
      SetOnClose device_socket device_ip, AddReadDescriptor device_socket]"
  by (simp_all add: state_after_def connect_calls_def DeviceManager_new_def
      SetRDMMessageCallback_def SetAcquireDeviceCallback_def SetReleaseDeviceCallback_def
      AddDevice_def OnTCPConnect_def new_DeviceState_def connected_device_def
      device_socket_def emit_def store_device_def)

lemma designated_state:
  "run DeviceManager_new (connect_calls @ [CallRLPDataReceived device_frame True]) =
     Inr (state_after (connect_calls @ [CallRLPDataReceived device_frame True]))"
  "m_device_map (state_after (connect_calls @ [CallRLPDataReceived device_frame True])) =
     [device_ip \<mapsto> designated_device]"
  "m_rdm_callback (state_after (connect_calls @ [CallRLPDataReceived device_frame True])) =
     Some acknowledge_all"
  "m_release_device_cb (state_after (connect_calls @ [CallRLPDataReceived device_frame True]))"
  "effects (state_after (connect_calls @ [CallRLPDataReceived device_frame True])) =
     [Log OLA_INFO, ConnectorAddEndpoint device_ip, SetOnData device_socket device_ip,
      SetOnClose device_socket device_ip, AddReadDescriptor device_socket,
      Log OLA_INFO, AcquireDeviceRun device_ip]"
  by (simp_all add: state_after_def connect_calls_def DeviceManager_new_def
      SetRDMMessageCallback_def SetAcquireDeviceCallback_def SetReleaseDeviceCallback_def
      AddDevice_def OnTCPConnect_def RLPDataReceived_def new_DeviceState_def
      designated_device_def device_health_check_def device_frame_def
      device_socket_def emit_def store_device_def Let_def)

lemma device_source: "SourceIP device_frame = device_ip"
  by (simp add: device_frame_def)

lemma stranger_source: "SourceIP stranger_frame = stranger_ip"
  by (simp add: stranger_frame_def)

lemma stranger_unknown:
  "m_device_map (state_after connect_calls) stranger_ip = None"
  by (simp add: connected_state stranger_ip_def device_ip_def)

lemma connector_after_snoc:
  "connector_after (es @ [e]) = connector_call (connector_after es) e"
  by (simp add: connector_after_def)

subsection \<open>Promotion to designated controller\<close>

text \<open>
  C1. Promotion happens exactly once per session. A record that holds a socket and is not
  designated receives \<open>1 + length oks\<close> frames. When \<open>Setup\<close> succeeds on the first,
  the first frame sets the flag, runs the acquire callback (when one is registered) and
  installs a message queue on the record's socket and a health checked connection on that
  queue; every later frame is a \<open>HeartbeatReceived\<close> on that health checked connection
  and nothing else: the record, the callbacks and the connector are not touched again.
  Whatever \<open>Setup\<close> returns, the first frame runs the acquire callback once.
\<close>

theorem promotion_happens_once:
  assumes "m_device_map st ip = Some d"
    and "socket d = Some s" and "\<not> am_designated_controller d"
    and "health_checked_connection d = None"
    and "Transport h = TCP" and "SourceIP h = ip"
  shows "run st (CallRLPDataReceived h True # map (CallRLPDataReceived h) oks) =
           Inr (st\<lparr>m_device_map := (m_device_map st)(ip \<mapsto>
                      d\<lparr>am_designated_controller := True,
                        message_queue := Some \<lparr>mq_socket = Some s\<rparr>,
                        health_checked_connection :=
                          Some \<lparr>hc_message_queue = \<lparr>mq_socket = Some s\<rparr>,
                                hc_on_unhealthy = ip\<rparr>\<rparr>),
                   effects := effects st @ [Log OLA_INFO] @
                     (if m_acquire_device_cb st then [AcquireDeviceRun ip] else []) @
                     replicate (length oks)
                       (HeartbeatReceived \<lparr>hc_message_queue = \<lparr>mq_socket = Some s\<rparr>,
                                           hc_on_unhealthy = ip\<rparr>)\<rparr>) \<and>
         (\<exists>st'. RLPDataReceived st h setup_ok = Inr st' \<and>
                filter (\<lambda>e. e = AcquireDeviceRun ip) (effects st') =
                  filter (\<lambda>e. e = AcquireDeviceRun ip) (effects st) @
                  (if m_acquire_device_cb st then [AcquireDeviceRun ip] else []))"
proof -
  let ?hc = "\<lparr>hc_message_queue = \<lparr>mq_socket = Some s\<rparr>, hc_on_unhealthy = ip\<rparr>"
  let ?d' = "d\<lparr>am_designated_controller := True,
               message_queue := Some \<lparr>mq_socket = Some s\<rparr>,
               health_checked_connection := Some ?hc\<rparr>"
  let ?st1 = "st\<lparr>m_device_map := (m_device_map st)(ip \<mapsto> ?d'),
                effects := effects st @ [Log OLA_INFO] @
                  (if m_acquire_device_cb st then [AcquireDeviceRun ip] else [])\<rparr>"
  have first: "RLPDataReceived st h True = Inr ?st1"
    using first_frame_Setup_ok [OF assms(1,3,4,5,6)] assms(2) by simp
  have rest: "run ?st1 (map (CallRLPDataReceived h) oks) =
                Inr (?st1\<lparr>effects := effects ?st1 @ replicate (length oks) (HeartbeatReceived ?hc)\<rparr>)"
    using assms by (intro heartbeats_only [where d = ?d']) simp_all
  have whole: "run st (CallRLPDataReceived h True # map (CallRLPDataReceived h) oks) =
                 Inr (?st1\<lparr>effects := effects ?st1 @ replicate (length oks) (HeartbeatReceived ?hc)\<rparr>)"
    using first rest by simp
  have once: "\<exists>st'. RLPDataReceived st h setup_ok = Inr st' \<and>
                filter (\<lambda>e. e = AcquireDeviceRun ip) (effects st') =
                  filter (\<lambda>e. e = AcquireDeviceRun ip) (effects st) @
                  (if m_acquire_device_cb st then [AcquireDeviceRun ip] else [])"
  proof (cases setup_ok)
    case True
    then show ?thesis using first by simp
  next
    case False
    then show ?thesis
      using first_frame_Setup_failed [OF assms(1,3,5,6)] by simp
  qed
  show ?thesis
    using whole once by simp
qed

theorem promotion_happens_once_witness:
  "m_device_map (state_after connect_calls) device_ip = Some connected_device \<and>
   socket connected_device = Some device_socket \<and>
   \<not> am_designated_controller connected_device \<and>
   health_checked_connection connected_device = None \<and>
   Transport device_frame = TCP \<and> SourceIP device_frame = device_ip \<and>
   run (state_after connect_calls)
     [CallRLPDataReceived device_frame True, CallRLPDataReceived device_frame True,
      CallRLPDataReceived device_frame False] =
     Inr ((state_after connect_calls)
            \<lparr>m_device_map := [device_ip \<mapsto> designated_device],
             effects := effects (state_after connect_calls) @
               [Log OLA_INFO, AcquireDeviceRun device_ip,
                HeartbeatReceived device_health_check,
                HeartbeatReceived device_health_check]\<rparr>)"
proof -
  have h1: "m_device_map (state_after connect_calls) device_ip = Some connected_device"
    by (simp add: connected_state)
  have h2: "socket connected_device = Some device_socket"
    and h3: "\<not> am_designated_controller connected_device"
    and h4: "health_checked_connection connected_device = None"
    by (simp_all add: connected_device_def)
  have h5: "Transport device_frame = TCP" and h6: "SourceIP device_frame = device_ip"
    by (simp_all add: device_frame_def)
  have same: "connected_device
      \<lparr>am_designated_controller := True,
       message_queue := Some \<lparr>mq_socket = Some device_socket\<rparr>,
       health_checked_connection :=
         Some \<lparr>hc_message_queue = \<lparr>mq_socket = Some device_socket\<rparr>,
               hc_on_unhealthy = device_ip\<rparr>\<rparr> = designated_device"
    by (simp add: connected_device_def designated_device_def device_health_check_def)
  show ?thesis
    using promotion_happens_once [OF h1 h2 h3 h4 h5 h6, of "[True, False]" True]
      h1 h2 h3 h4 h5 h6
    by (simp add: connected_state same device_health_check_def)
qed

text \<open>
  C3. When \<open>Setup\<close> fails on the first frame, the manager calls \<open>SocketClosed\<close> at once
  and returns: the record is left without socket, queue, health checked connection and
  transport, and not designated. The record had been flagged before \<open>Setup\<close> ran, so the
  close takes the designated branch: the release callback runs and the connector's
  \<open>Disconnect\<close> is called with the address alone.
\<close>

theorem failed_Setup_abandons_promotion:
  assumes "m_device_map st ip = Some d" and "\<not> am_designated_controller d"
    and "Transport h = TCP" and "SourceIP h = ip"
  shows "RLPDataReceived st h False =
           Inr (st\<lparr>m_device_map := (m_device_map st)(ip \<mapsto>
                      d\<lparr>am_designated_controller := False, health_checked_connection := None,
                        message_queue := None, in_transport := None, socket := None\<rparr>),
                   effects := effects st @ [Log OLA_INFO] @
                     (if m_acquire_device_cb st then [AcquireDeviceRun ip] else []) @
                     [Log OLA_WARN, Log OLA_INFO] @
                     (if m_release_device_cb st then [ReleaseDeviceRun ip] else []) @
                     [ConnectorDisconnect ip None, RemoveReadDescriptor (socket d)]\<rparr>)"
  using first_frame_Setup_failed [OF assms] by (simp add: torn_down_def)

theorem failed_Setup_abandons_promotion_witness:
  "m_device_map (state_after connect_calls) device_ip = Some connected_device \<and>
   \<not> am_designated_controller connected_device \<and>
   Transport device_frame = TCP \<and> SourceIP device_frame = device_ip \<and>
   RLPDataReceived (state_after connect_calls) device_frame False =
     Inr ((state_after connect_calls)
            \<lparr>m_device_map := [device_ip \<mapsto> new_DeviceState],
             effects := effects (state_after connect_calls) @
               [Log OLA_INFO, AcquireDeviceRun device_ip, Log OLA_WARN, Log OLA_INFO,
                ReleaseDeviceRun device_ip, ConnectorDisconnect device_ip None,
                RemoveReadDescriptor (Some device_socket)]\<rparr>)"
proof -
  have h1: "m_device_map (state_after connect_calls) device_ip = Some connected_device"
    by (simp add: connected_state)
  have h2: "\<not> am_designated_controller connected_device"
    by (simp add: connected_device_def)
  have h3: "Transport device_frame = TCP" and h4: "SourceIP device_frame = device_ip"
    by (simp_all add: device_frame_def)
  show ?thesis
    using failed_Setup_abandons_promotion [OF h1 h2 h3 h4] h1 h2 h3 h4
    by (simp add: connected_state connected_device_def new_DeviceState_def)
qed

subsection \<open>The records of the registry\<close>

text \<open>
  C2. In every state that a well sequenced history reaches from a fresh manager, every
  record of the registry has a message queue, a health checked connection or a transport
  only if it has a socket, is designated only if it has a socket, its transport reads
  from the socket it holds, and that socket is connected to the address the record is
  stored under. The registry has one record per address and a record one socket field
  (\<open>OnTCPConnect\<close> on a record that has a socket replaces it), so a session with an
  address is held under that address only, and there is one at most.
\<close>

theorem sub_objects_live_within_session:
  assumes "well_sequenced DeviceManager_new cs"
    and "run DeviceManager_new cs = Inr st"
    and "m_device_map st ip = Some d"
  shows "(message_queue d \<noteq> None \<longrightarrow> socket d \<noteq> None) \<and>
         (health_checked_connection d \<noteq> None \<longrightarrow> socket d \<noteq> None) \<and>
         (in_transport d \<noteq> None \<longrightarrow> socket d \<noteq> None) \<and>
         (am_designated_controller d \<longrightarrow> socket d \<noteq> None) \<and>
         (\<forall>t. in_transport d = Some t \<longrightarrow> socket d = Some (it_socket t)) \<and>
         (\<forall>s. socket d = Some s \<longrightarrow> (\<exists>port. GetPeer s = IPV4SocketAddress ip port))"
proof -
  have "\<forall>ip d. m_device_map DeviceManager_new ip = Some d \<longrightarrow> session_bound ip d"
    by (simp add: DeviceManager_new_def)
  from run_session_bound [OF this assms(1) assms(2)] assms(3)
  have bound: "session_bound ip d" by blast
  have peer: "\<exists>port. GetPeer s = IPV4SocketAddress ip port" if "socket d = Some s" for s
    using bound that by (cases "GetPeer s") (simp_all add: session_bound_def)
  have "(message_queue d \<noteq> None \<longrightarrow> socket d \<noteq> None) \<and>
        (health_checked_connection d \<noteq> None \<longrightarrow> socket d \<noteq> None) \<and>
        (in_transport d \<noteq> None \<longrightarrow> socket d \<noteq> None) \<and>
        (am_designated_controller d \<longrightarrow> socket d \<noteq> None) \<and>
        (\<forall>t. in_transport d = Some t \<longrightarrow> socket d = Some (it_socket t))"
    using bound by (auto simp: session_bound_def)
  then show ?thesis
    using peer by blast
qed

theorem sub_objects_live_within_session_witness:
  "well_sequenced DeviceManager_new (connect_calls @ [CallRLPDataReceived device_frame True]) \<and>
   run DeviceManager_new (connect_calls @ [CallRLPDataReceived device_frame True]) =
     Inr (state_after (connect_calls @ [CallRLPDataReceived device_frame True])) \<and>
   m_device_map (state_after (connect_calls @ [CallRLPDataReceived device_frame True])) device_ip =
     Some designated_device \<and>
   message_queue designated_device \<noteq> None \<and>
   health_checked_connection designated_device \<noteq> None \<and>
   in_transport designated_device = Some \<lparr>it_socket = device_socket\<rparr> \<and>
   am_designated_controller designated_device \<and>
   socket designated_device = Some device_socket \<and>
   GetPeer device_socket = IPV4SocketAddress device_ip 5569"
proof -
  have ws: "well_sequenced DeviceManager_new
              (connect_calls @ [CallRLPDataReceived device_frame True])"
    by (simp add: connect_calls_def from_session_def DeviceManager_new_def
        SetRDMMessageCallback_def SetAcquireDeviceCallback_def SetReleaseDeviceCallback_def
        AddDevice_def OnTCPConnect_def RLPDataReceived_def new_DeviceState_def device_frame_def
        device_socket_def emit_def store_device_def Let_def)
  have r: "run DeviceManager_new (connect_calls @ [CallRLPDataReceived device_frame True]) =
             Inr (state_after (connect_calls @ [CallRLPDataReceived device_frame True]))"
    by (rule designated_state)
  have m: "m_device_map (state_after (connect_calls @ [CallRLPDataReceived device_frame True]))
             device_ip = Some designated_device"
    by (simp add: designated_state)
  show ?thesis
    using sub_objects_live_within_session [OF ws r m] ws r m
    by (simp add: designated_device_def device_socket_def)
qed

subsection \<open>Teardown\<close>

text \<open>
  C4. \<open>SocketUnhealthy\<close> is \<open>SocketClosed\<close> after one more log line. For a known
  address \<open>SocketClosed\<close> clears the flag and, if the record was designated, runs the
  release callback (when one is registered); in every case it drops the health checked
  connection, the message queue and the transport, removes the socket from the select
  server and drops it. The address stays in the registry, whether it was known or not.
\<close>

theorem SocketClosed_teardown:
  assumes "m_device_map st ip = Some d"
  shows "SocketClosed st ip =
           st\<lparr>m_device_map := (m_device_map st)(ip \<mapsto> torn_down d),
              effects := effects st @ [Log OLA_INFO] @
                (if am_designated_controller d
                 then (if m_release_device_cb st then [ReleaseDeviceRun ip] else []) @
                      [ConnectorDisconnect ip None]
                 else [ConnectorDisconnect ip (Some True)]) @
                [RemoveReadDescriptor (socket d)]\<rparr> \<and>
         SocketUnhealthy st ip = SocketClosed (st\<lparr>effects := effects st @ [Log OLA_INFO]\<rparr>) ip \<and>
         dom (m_device_map (SocketClosed st ip)) = dom (m_device_map st)"
  using assms
  by (auto simp: SocketClosed_def SocketUnhealthy_def emit_def store_device_def torn_down_def Let_def)

theorem SocketClosed_teardown_witness:
  "m_device_map (state_after (connect_calls @ [CallRLPDataReceived device_frame True])) device_ip =
     Some designated_device \<and>
   SocketClosed (state_after (connect_calls @ [CallRLPDataReceived device_frame True])) device_ip =
     (state_after (connect_calls @ [CallRLPDataReceived device_frame True]))
       \<lparr>m_device_map := [device_ip \<mapsto> new_DeviceState],
        effects := effects (state_after (connect_calls @ [CallRLPDataReceived device_frame True])) @
          [Log OLA_INFO, ReleaseDeviceRun device_ip, ConnectorDisconnect device_ip None,
           RemoveReadDescriptor (Some device_socket)]\<rparr> \<and>
   dom (m_device_map
          (SocketClosed (state_after (connect_calls @ [CallRLPDataReceived device_frame True]))
             device_ip)) = {device_ip}"
proof -
  have h: "m_device_map (state_after (connect_calls @ [CallRLPDataReceived device_frame True]))
             device_ip = Some designated_device"
    by (simp add: designated_state)
  show ?thesis
    using SocketClosed_teardown [OF h] h
    by (simp add: designated_state designated_device_def new_DeviceState_def torn_down_def)
qed

text \<open>
  C5, as the specification states it, says that after a close before designation the
  endpoint stays on the connector's retry schedule. Add the device, connect, close: the
  connector has the endpoint on its schedule after the connect and has abandoned its
  retries after the close; the device is still registered, and adding it again changes
  nothing.
\<close>

theorem lost_election_stops_retries:
  "m_device_map
     (SocketClosed (OnTCPConnect (AddDevice DeviceManager_new device_ip) device_socket) device_ip)
     device_ip = Some new_DeviceState \<and>
   connector_after
     (effects (OnTCPConnect (AddDevice DeviceManager_new device_ip) device_socket))
     device_ip = Some OnRetrySchedule \<and>
   connector_after
     (effects (SocketClosed (OnTCPConnect (AddDevice DeviceManager_new device_ip) device_socket)
                 device_ip))
     device_ip = Some RetriesAbandoned \<and>
   connector_after
     (effects (AddDevice
                 (SocketClosed (OnTCPConnect (AddDevice DeviceManager_new device_ip) device_socket)
                    device_ip)
                 device_ip))
     device_ip = Some RetriesAbandoned"
  by (simp add: DeviceManager_new_def AddDevice_def OnTCPConnect_def SocketClosed_def
      new_DeviceState_def device_socket_def emit_def store_device_def Let_def
      connector_after_def)

text \<open>
  C5, amended. When the session of a record that is not designated closes, the manager
  logs, calls the connector's \<open>Disconnect\<close> with the second argument true ("we lost the
  race, so don't try to reconnect") and removes the socket from the select server; it runs no
  callback and does not add the endpoint again. The record is torn down and stays
  registered, and the connector, which knew the endpoint, has abandoned its retries.
\<close>

theorem lost_election_abandons_retries:
  assumes "m_device_map st ip = Some d" and "\<not> am_designated_controller d"
    and "connector_after (effects st) ip \<noteq> None"
  shows "effects (SocketClosed st ip) =
           effects st @ [Log OLA_INFO, ConnectorDisconnect ip (Some True),
                         RemoveReadDescriptor (socket d)] \<and>
         m_device_map (SocketClosed st ip) = (m_device_map st)(ip \<mapsto> torn_down d) \<and>
         connector_after (effects (SocketClosed st ip)) ip = Some RetriesAbandoned"
proof -
  have eff: "effects (SocketClosed st ip) =
               ((effects st @ [Log OLA_INFO]) @ [ConnectorDisconnect ip (Some True)]) @
               [RemoveReadDescriptor (socket d)]"
    using assms(1,2) by (simp add: SocketClosed_def Let_def)
  have "connector_after (effects (SocketClosed st ip)) ip = Some RetriesAbandoned"
    using assms(3) unfolding eff connector_after_snoc by auto
  then show ?thesis
    using assms(1) eff by (simp add: SocketClosed_map)
qed

theorem lost_election_abandons_retries_witness:
  "m_device_map (state_after connect_calls) device_ip = Some connected_device \<and>
   \<not> am_designated_controller connected_device \<and>
   connector_after (effects (state_after connect_calls)) device_ip = Some OnRetrySchedule \<and>
   effects (SocketClosed (state_after connect_calls) device_ip) =
     effects (state_after connect_calls) @
       [Log OLA_INFO, ConnectorDisconnect device_ip (Some True),
        RemoveReadDescriptor (Some device_socket)] \<and>
   m_device_map (SocketClosed (state_after connect_calls) device_ip) =
     [device_ip \<mapsto> new_DeviceState] \<and>
   connector_after (effects (SocketClosed (state_after connect_calls) device_ip)) device_ip =
     Some RetriesAbandoned"
proof -
  have h1: "m_device_map (state_after connect_calls) device_ip = Some connected_device"
    by (simp add: connected_state)
  have h2: "\<not> am_designated_controller connected_device"
    by (simp add: connected_device_def)
  have h3: "connector_after (effects (state_after connect_calls)) device_ip = Some OnRetrySchedule"
    by (simp add: connected_state connector_after_def)
  then have h3': "connector_after (effects (state_after connect_calls)) device_ip \<noteq> None"
    by simp
  show ?thesis
    using lost_election_abandons_retries [OF h1 h2 h3'] h1 h2 h3
    by (simp add: connected_state connected_device_def new_DeviceState_def torn_down_def
        connector_after_def)
qed

subsection \<open>Events for an unknown address\<close>

text \<open>
  C6. When the address has no record, a connected IPv4 socket from it, a TCP transport
  header from it and a close for it are each answered by a log line at \<open>OLA_FATAL\<close>
  (after the usual \<open>OLA_INFO\<close> line in \<open>SocketClosed\<close>) and a normal return: the
  registry, the callbacks and every record are as before.
\<close>

theorem unknown_address_is_logged_and_dropped:
  assumes "m_device_map st ip = None"
  shows "(GetPeer s = IPV4SocketAddress ip port \<longrightarrow>
            OnTCPConnect st s = st\<lparr>effects := effects st @ [Log OLA_FATAL]\<rparr>) \<and>
         (SourceIP h = ip \<and> Transport h = TCP \<longrightarrow>
            RLPDataReceived st h setup_ok = Inr (st\<lparr>effects := effects st @ [Log OLA_FATAL]\<rparr>)) \<and>
         SocketClosed st ip = st\<lparr>effects := effects st @ [Log OLA_INFO, Log OLA_FATAL]\<rparr>"
  using assms
  by (simp add: OnTCPConnect_def RLPDataReceived_def SocketClosed_def emit_def)

theorem unknown_address_is_logged_and_dropped_witness:
  "m_device_map (state_after connect_calls) stranger_ip = None \<and>
   GetPeer stranger_socket = IPV4SocketAddress stranger_ip 5569 \<and>
   OnTCPConnect (state_after connect_calls) stranger_socket =
     (state_after connect_calls)
       \<lparr>effects := effects (state_after connect_calls) @ [Log OLA_FATAL]\<rparr> \<and>
   SourceIP stranger_frame = stranger_ip \<and> Transport stranger_frame = TCP \<and>
   RLPDataReceived (state_after connect_calls) stranger_frame True =
     Inr ((state_after connect_calls)
            \<lparr>effects := effects (state_after connect_calls) @ [Log OLA_FATAL]\<rparr>) \<and>
   SocketClosed (state_after connect_calls) stranger_ip =
     (state_after connect_calls)
       \<lparr>effects := effects (state_after connect_calls) @ [Log OLA_INFO, Log OLA_FATAL]\<rparr>"
proof -
  have h: "m_device_map (state_after connect_calls) stranger_ip = None"
    by (rule stranger_unknown)
  have p: "GetPeer stranger_socket = IPV4SocketAddress stranger_ip 5569"
    by (simp add: stranger_socket_def)
  have f: "SourceIP stranger_frame = stranger_ip \<and> Transport stranger_frame = TCP"
    by (simp add: stranger_frame_def)
  show ?thesis
    using unknown_address_is_logged_and_dropped
            [OF h, of stranger_socket 5569 stranger_frame True] h p f
    by simp
qed

subsection \<open>Adding and removing devices\<close>

text \<open>
  C7. \<open>RemoveDevice\<close> on a connected device and \<open>RemoveDeviceIfNotConnected\<close> on a
  device without a connection only log a warning: the entry stays in the registry, and
  the connected device keeps its socket.
\<close>

theorem removal_is_not_implemented:
  "RemoveDevice (OnTCPConnect (AddDevice DeviceManager_new device_ip) device_socket) device_ip =
     (OnTCPConnect (AddDevice DeviceManager_new device_ip) device_socket)
       \<lparr>effects :=
          effects (OnTCPConnect (AddDevice DeviceManager_new device_ip) device_socket) @
          [Log OLA_WARN]\<rparr> \<and>
   m_device_map
     (RemoveDevice (OnTCPConnect (AddDevice DeviceManager_new device_ip) device_socket) device_ip)
     device_ip = Some connected_device \<and>
   socket connected_device = Some device_socket \<and>
   RemoveDeviceIfNotConnected (AddDevice DeviceManager_new device_ip) device_ip =
     (AddDevice DeviceManager_new device_ip)
       \<lparr>effects := effects (AddDevice DeviceManager_new device_ip) @ [Log OLA_WARN]\<rparr> \<and>
   m_device_map (RemoveDeviceIfNotConnected (AddDevice DeviceManager_new device_ip) device_ip)
     device_ip = Some new_DeviceState"
  by (simp add: RemoveDevice_def RemoveDeviceIfNotConnected_def OnTCPConnect_def
      AddDevice_def DeviceManager_new_def connected_device_def new_DeviceState_def
      device_socket_def emit_def store_device_def)

text \<open>
  C9. \<open>AddDevice\<close> for a registered address returns the state as it is, with no call to
  the connector, so adding twice is adding once. For a new address it stores a record
  with no socket, queue, health checked connection or transport and the flag false, and
  calls the connector's \<open>AddEndpoint\<close> for the address.
\<close>

theorem AddDevice_registers_once:
  "(m_device_map st ip \<noteq> None \<longrightarrow> AddDevice st ip = st) \<and>
   (m_device_map st ip = None \<longrightarrow>
      AddDevice st ip =
        st\<lparr>m_device_map := (m_device_map st)(ip \<mapsto>
               \<lparr>socket = None, message_queue = None, health_checked_connection = None,
                in_transport = None, am_designated_controller = False\<rparr>),
           effects := effects st @ [Log OLA_INFO, ConnectorAddEndpoint ip]\<rparr>) \<and>
   AddDevice (AddDevice st ip) ip = AddDevice st ip"
  by (cases "m_device_map st ip") (simp_all add: AddDevice_def new_DeviceState_def emit_def store_device_def)

theorem AddDevice_registers_once_witness:
  "m_device_map DeviceManager_new device_ip = None \<and>
   AddDevice DeviceManager_new device_ip =
     DeviceManager_new\<lparr>m_device_map := [device_ip \<mapsto>
         \<lparr>socket = None, message_queue = None, health_checked_connection = None,
          in_transport = None, am_designated_controller = False\<rparr>],
       effects := [Log OLA_INFO, ConnectorAddEndpoint device_ip]\<rparr> \<and>
   m_device_map (AddDevice DeviceManager_new device_ip) device_ip \<noteq> None \<and>
   AddDevice (AddDevice DeviceManager_new device_ip) device_ip = AddDevice DeviceManager_new device_ip"
proof -
  have fresh: "m_device_map DeviceManager_new device_ip = None"
    by (simp add: DeviceManager_new_def)
  have first: "AddDevice DeviceManager_new device_ip =
     DeviceManager_new\<lparr>m_device_map := [device_ip \<mapsto>
         \<lparr>socket = None, message_queue = None, health_checked_connection = None,
          in_transport = None, am_designated_controller = False\<rparr>],
       effects := [Log OLA_INFO, ConnectorAddEndpoint device_ip]\<rparr>"
    using AddDevice_registers_once [of DeviceManager_new device_ip] fresh
    by (simp add: DeviceManager_new_def)
  have known: "m_device_map (AddDevice DeviceManager_new device_ip) device_ip \<noteq> None"
    by (simp add: first)
  show ?thesis
    using fresh first known
      AddDevice_registers_once [of "AddDevice DeviceManager_new device_ip" device_ip]
    by simp
qed

subsection \<open>Requests for the root endpoint\<close>

text \<open>
  C8, as the specification states it, says that a request which the registered callback
  acknowledges is always answered. Here the callback acknowledges a request from an
  address without a record: the manager runs the callback, warns and sends nothing.
\<close>

theorem acknowledged_request_without_record_gets_no_reply:
  "acknowledge_all device_frame request_header ''GET'' \<and>
   EndpointRequest (SetRDMMessageCallback DeviceManager_new (Some acknowledge_all))
       device_frame request_header ''GET'' =
     Inr ((SetRDMMessageCallback DeviceManager_new (Some acknowledge_all))
            \<lparr>effects := [RDMMessageRun device_frame request_header ''GET'', Log OLA_WARN]\<rparr>)"
  by (simp add: EndpointRequest_def SetRDMMessageCallback_def DeviceManager_new_def
      acknowledge_all_def emit_def)

text \<open>
  C8, amended. Without a callback the request changes nothing. When the callback returns
  false, it has been run and nothing else happens. When it returns true and the source
  address has no record, a warning is logged and nothing is sent. When it returns true and
  the source address has a record with a message queue, an acknowledgement with the
  sequence number and the endpoint of the request's E1.33 header is sent on that queue.
\<close>

theorem EndpointRequest_cases:
  "(m_rdm_callback st = None \<longrightarrow> EndpointRequest st th eh raw = Inr st) \<and>
   (m_rdm_callback st = Some cb \<and> \<not> cb th eh raw \<longrightarrow>
      EndpointRequest st th eh raw =
        Inr (st\<lparr>effects := effects st @ [RDMMessageRun th eh raw]\<rparr>)) \<and>
   (m_rdm_callback st = Some cb \<and> cb th eh raw \<and> m_device_map st (SourceIP th) = None \<longrightarrow>
      EndpointRequest st th eh raw =
        Inr (st\<lparr>effects := effects st @ [RDMMessageRun th eh raw, Log OLA_WARN]\<rparr>)) \<and>
   (m_rdm_callback st = Some cb \<and> cb th eh raw \<and>
    m_device_map st (SourceIP th) = Some d \<and> message_queue d = Some q \<longrightarrow>
      EndpointRequest st th eh raw =
        Inr (st\<lparr>effects := effects st @
               [RDMMessageRun th eh raw,
                SendMessage q \<lparr>status_code = SC_E133_ACK, status_message = ''OK'',
                               vector = VECTOR_FRAMING_STATUS,
                               pdu_sequence = Sequence eh, pdu_endpoint = Endpoint eh\<rparr>]\<rparr>))"
  by (simp add: EndpointRequest_def emit_def Let_def)

theorem EndpointRequest_cases_witness:
  "m_rdm_callback DeviceManager_new = None \<and>
   EndpointRequest DeviceManager_new device_frame request_header ''GET'' = Inr DeviceManager_new \<and>
   \<not> acknowledge_none device_frame request_header ''GET'' \<and>
   EndpointRequest (SetRDMMessageCallback DeviceManager_new (Some acknowledge_none))
       device_frame request_header ''GET'' =
     Inr ((SetRDMMessageCallback DeviceManager_new (Some acknowledge_none))
            \<lparr>effects := [RDMMessageRun device_frame request_header ''GET'']\<rparr>) \<and>
   acknowledge_all stranger_frame request_header ''GET'' \<and>
   m_device_map (state_after connect_calls) (SourceIP stranger_frame) = None \<and>
   EndpointRequest (state_after connect_calls) stranger_frame request_header ''GET'' =
     Inr ((state_after connect_calls)
            \<lparr>effects := effects (state_after connect_calls) @
               [RDMMessageRun stranger_frame request_header ''GET'', Log OLA_WARN]\<rparr>) \<and>
   message_queue designated_device = Some \<lparr>mq_socket = Some device_socket\<rparr> \<and>
   EndpointRequest (state_after (connect_calls @ [CallRLPDataReceived device_frame True]))
       device_frame request_header ''GET'' =
     Inr ((state_after (connect_calls @ [CallRLPDataReceived device_frame True]))
            \<lparr>effects := effects (state_after (connect_calls @ [CallRLPDataReceived device_frame True])) @
               [RDMMessageRun device_frame request_header ''GET'',
                SendMessage \<lparr>mq_socket = Some device_socket\<rparr>
                  \<lparr>status_code = SC_E133_ACK, status_message = ''OK'',
                   vector = VECTOR_FRAMING_STATUS, pdu_sequence = 42, pdu_endpoint = 0\<rparr>]\<rparr>)"
proof -
  let ?silent = "SetRDMMessageCallback DeviceManager_new (Some acknowledge_none)"
  let ?designated = "state_after (connect_calls @ [CallRLPDataReceived device_frame True])"
  have none: "m_rdm_callback DeviceManager_new = None"
    by (simp add: DeviceManager_new_def)
  have silent: "m_rdm_callback ?silent = Some acknowledge_none"
    "\<not> acknowledge_none device_frame request_header ''GET''"
    "effects ?silent = []"
    by (simp_all add: SetRDMMessageCallback_def DeviceManager_new_def acknowledge_none_def)
  have stranger: "m_rdm_callback (state_after connect_calls) = Some acknowledge_all"
    "acknowledge_all stranger_frame request_header ''GET''"
    "m_device_map (state_after connect_calls) (SourceIP stranger_frame) = None"
    using stranger_unknown
    by (simp_all add: connected_state acknowledge_all_def stranger_source)
  have designated: "m_rdm_callback ?designated = Some acknowledge_all"
    "acknowledge_all device_frame request_header ''GET''"
    "m_device_map ?designated (SourceIP device_frame) = Some designated_device"
    "message_queue designated_device = Some \<lparr>mq_socket = Some device_socket\<rparr>"
    by (simp_all add: designated_state acknowledge_all_def device_source designated_device_def)
  show ?thesis
    using EndpointRequest_cases [of DeviceManager_new device_frame request_header "''GET''"]
      EndpointRequest_cases [of ?silent device_frame request_header "''GET''" acknowledge_none]
      EndpointRequest_cases [of "state_after connect_calls" stranger_frame request_header
        "''GET''" acknowledge_all]
      EndpointRequest_cases [of ?designated device_frame request_header "''GET''"
        acknowledge_all designated_device "\<lparr>mq_socket = Some device_socket\<rparr>"]
      none silent stranger designated
    by (simp add: request_header_def)
qed

text \<open>
  C10. In any state that a history reaches from a fresh manager, for a request that the
  callback acknowledges and whose source address has a record: if the record is
  designated its message queue exists and the acknowledgement is sent on it; if it is not,
  the queue is NULL and \<open>EndpointRequest\<close> dereferences it.
\<close>

theorem acknowledgement_needs_designation:
  assumes "run DeviceManager_new cs = Inr st"
    and "m_rdm_callback st = Some cb" and "cb th eh raw"
    and "m_device_map st (SourceIP th) = Some d"
  shows "(am_designated_controller d \<longrightarrow>
            (\<exists>q. message_queue d = Some q \<and>
                 EndpointRequest st th eh raw =
                   Inr (st\<lparr>effects := effects st @
                          [RDMMessageRun th eh raw,
                           SendMessage q \<lparr>status_code = SC_E133_ACK, status_message = ''OK'',
                                          vector = VECTOR_FRAMING_STATUS,
                                          pdu_sequence = Sequence eh,
                                          pdu_endpoint = Endpoint eh\<rparr>]\<rparr>))) \<and>
         (\<not> am_designated_controller d \<longrightarrow>
            message_queue d = None \<and>
            EndpointRequest st th eh raw = Inl NullPointerDereference)"
proof -
  have "\<forall>ip d. m_device_map DeviceManager_new ip = Some d \<longrightarrow> designation_complete d"
    by (simp add: DeviceManager_new_def)
  from run_designation_complete [OF this assms(1)] assms(4)
  have "designation_complete d" by blast
  then have queue: "am_designated_controller d \<longleftrightarrow> message_queue d \<noteq> None"
    by (simp add: designation_complete_def)
  show ?thesis
    using assms(2-4) queue
    by (auto simp: EndpointRequest_def emit_def Let_def)
qed

theorem acknowledgement_needs_designation_witness:
  "run DeviceManager_new connect_calls = Inr (state_after connect_calls) \<and>
   m_rdm_callback (state_after connect_calls) = Some acknowledge_all \<and>
   acknowledge_all device_frame request_header ''GET'' \<and>
   m_device_map (state_after connect_calls) (SourceIP device_frame) = Some connected_device \<and>
   \<not> am_designated_controller connected_device \<and>
   EndpointRequest (state_after connect_calls) device_frame request_header ''GET'' =
     Inl NullPointerDereference \<and>
   run DeviceManager_new (connect_calls @ [CallRLPDataReceived device_frame True]) =
     Inr (state_after (connect_calls @ [CallRLPDataReceived device_frame True])) \<and>
   m_device_map (state_after (connect_calls @ [CallRLPDataReceived device_frame True]))
     (SourceIP device_frame) = Some designated_device \<and>
   am_designated_controller designated_device \<and>
   EndpointRequest (state_after (connect_calls @ [CallRLPDataReceived device_frame True]))
       device_frame request_header ''GET'' =
     Inr ((state_after (connect_calls @ [CallRLPDataReceived device_frame True]))
            \<lparr>effects := effects (state_after (connect_calls @ [CallRLPDataReceived device_frame True])) @
               [RDMMessageRun device_frame request_header ''GET'',
                SendMessage \<lparr>mq_socket = Some device_socket\<rparr>
                  \<lparr>status_code = SC_E133_ACK, status_message = ''OK'',
                   vector = VECTOR_FRAMING_STATUS, pdu_sequence = 42, pdu_endpoint = 0\<rparr>]\<rparr>)"
proof -
  let ?designated = "state_after (connect_calls @ [CallRLPDataReceived device_frame True])"
  have ack: "acknowledge_all device_frame request_header ''GET''"
    by (simp add: acknowledge_all_def)
  have c1: "run DeviceManager_new connect_calls = Inr (state_after connect_calls)"
    and c2: "m_rdm_callback (state_after connect_calls) = Some acknowledge_all"
    and c3: "m_device_map (state_after connect_calls) (SourceIP device_frame) = Some connected_device"
    by (simp_all add: connected_state device_source)
  have d1: "run DeviceManager_new (connect_calls @ [CallRLPDataReceived device_frame True]) =
              Inr ?designated"
    and d2: "m_rdm_callback ?designated = Some acknowledge_all"
    and d3: "m_device_map ?designated (SourceIP device_frame) = Some designated_device"
    by (simp_all add: designated_state device_source)
  have flags: "\<not> am_designated_controller connected_device"
    "am_designated_controller designated_device"
    "message_queue designated_device = Some \<lparr>mq_socket = Some device_socket\<rparr>"
    by (simp_all add: connected_device_def designated_device_def)
  show ?thesis
    using acknowledgement_needs_designation [OF c1 c2 ack c3]
      acknowledgement_needs_designation [OF d1 d2 ack d3]
      ack c1 c2 c3 d1 d3 flags
    by (simp add: request_header_def)
qed

end
